theory Spec2Isabelle
  imports Main "HOL-Library.Sublist"
begin

section \<open>JavaScript values\<close>

text \<open>
  The plugin loader of \<^verbatim>\<open>src/plugin-loader.js\<close> inspects values it did not create: the
  namespace object of an imported module and the parsed \<^verbatim>\<open>package.json\<close>. They are
  modelled as a datatype of JavaScript values on which \<^verbatim>\<open>typeof\<close>, truthiness and
  property reads are defined as the language defines them.

  An exception is a value of \<open>js_error\<close>; a function that can throw returns
  \<open>js_error + 'a\<close> (\<open>Inl\<close> is the throw) next to the state it leaves.
\<close>

datatype js_error = JsError string | JsTypeError string

text \<open>
  What calling a function of a plugin does. \<open>Returns\<close>: it returns a value that is not a
  promise, or a promise that fulfils. \<open>Throws\<close>: it throws before returning.
  \<open>Rejects\<close>: it returns a promise that rejects. Plugin code is taken to return or settle.
\<close>

datatype completion = Returns | Throws js_error | Rejects js_error

text \<open>
  A function exported by a plugin: \<open>fn_name\<close> identifies it in the trace of calls,
  \<open>fn_routes\<close> are the layers it pushes on the stack of a router passed to it,
  \<open>fn_completion\<close> is how a call ends, and \<open>fn_settles\<close> is the position, in the order
  in which promises settle, of the promise it returns.
\<close>

record js_fn =
  fn_name :: string
  fn_routes :: "string list"
  fn_completion :: completion
  fn_settles :: nat

datatype js_value =
    JUndefined
  | JNull
  | JBool bool
  | JNum int
  | JStr string
  | JObj "(string \<times> js_value) list"
  | JFun js_fn "(string \<times> js_value) list"

fun typeof :: "js_value \<Rightarrow> string" where
  "typeof JUndefined = ''undefined''"
| "typeof JNull = ''object''"
| "typeof (JBool b) = ''boolean''"
| "typeof (JNum n) = ''number''"
| "typeof (JStr s) = ''string''"
| "typeof (JObj ps) = ''object''"
| "typeof (JFun f ps) = ''function''"

fun truthy :: "js_value \<Rightarrow> bool" where
  "truthy JUndefined = False"
| "truthy JNull = False"
| "truthy (JBool b) = b"
| "truthy (JNum n) = (n \<noteq> 0)"
| "truthy (JStr s) = (s \<noteq> [])"
| "truthy (JObj ps) = True"
| "truthy (JFun f ps) = True"

text \<open>\<^verbatim>\<open>a || b\<close>\<close>

definition js_or :: "js_value \<Rightarrow> js_value \<Rightarrow> js_value" where
  "js_or a b = (if truthy a then a else b)"

text \<open>The value of a property among the properties of an object: \<^verbatim>\<open>undefined\<close> when absent.\<close>

definition own :: "(string \<times> js_value) list \<Rightarrow> string \<Rightarrow> js_value" where
  "own ps k = (case map_of ps k of None \<Rightarrow> JUndefined | Some v \<Rightarrow> v)"

text \<open>
  \<^verbatim>\<open>v?.k\<close>: \<^verbatim>\<open>undefined\<close> on \<^verbatim>\<open>undefined\<close> and \<^verbatim>\<open>null\<close>. The loader reads only the
  properties \<^verbatim>\<open>info\<close>, \<^verbatim>\<open>init\<close>, \<^verbatim>\<open>exit\<close>, \<^verbatim>\<open>id\<close>, \<^verbatim>\<open>name\<close>, \<^verbatim>\<open>description\<close> and
  \<^verbatim>\<open>main\<close>; on a boolean, a number or a string none of them exists.
\<close>

fun optional_member :: "js_value \<Rightarrow> string \<Rightarrow> js_value" where
  "optional_member (JObj ps) k = own ps k"
| "optional_member (JFun f ps) k = own ps k"
| "optional_member v k = JUndefined"

text \<open>\<^verbatim>\<open>v.k\<close> and \<^verbatim>\<open>v[k]\<close>: a TypeError on \<^verbatim>\<open>undefined\<close> and \<^verbatim>\<open>null\<close>.\<close>

fun member :: "js_value \<Rightarrow> string \<Rightarrow> js_error + js_value" where
  "member JUndefined k = Inl (JsTypeError ''Cannot read properties of undefined'')"
| "member JNull k = Inl (JsTypeError ''Cannot read properties of null'')"
| "member v k = Inr (optional_member v k)"

text \<open>The namespace object that \<^verbatim>\<open>import()\<close> resolves to: its exports by name.\<close>

type_synonym js_module = "(string \<times> js_value) list"

section \<open>The host: registry, app, trace\<close>

datatype message =
    InfoNotFound
  | MissingField string
  | NoInitFunction
  | InvalidPluginID string
  | IDInUse string
  | FailedToLoad string js_error
  | Initializing string
  | PluginsLoaded nat
  | AutoUpdating
  | GitNotInstalled
  | PluginUpdated string string
  | FailedToUpdate string js_error
  | AllUpToDate

datatype event =
    ExistsSync string
  | ReaddirSync string
  | StatSync string
  | ReadFileSync string
  | Import string
  | Call string
  | CommandExists string
  | CheckIsRepo string
  | Fetch string
  | RevparseHead string
  | RevparseUpstream string
  | GitLog string
  | Pull string
  | ConsoleLog message
  | ConsoleError message

text \<open>
  A checkout as the git library shows it to \<^verbatim>\<open>updatePlugins\<close>: the result of each
  operation, \<open>Inl\<close> when the operation rejects. \<open>log_total\<close> is the \<^verbatim>\<open>total\<close> of the
  log from \<^verbatim>\<open>HEAD\<close> to the tracking branch; \<open>pull_result\<close> is the commit a successful
  pull leaves \<^verbatim>\<open>HEAD\<close> at.
\<close>

record repo =
  is_repo :: "js_error + bool"
  fetch_result :: "js_error + unit"
  head :: "js_error + string"
  tracking :: "js_error + string"
  log_total :: "js_error + nat"
  pull_result :: "js_error + string"

text \<open>
  \<open>loadedPlugins\<close> is the module-level \<^verbatim>\<open>Map\<close>, in insertion order. \<open>app\<close> holds the
  mounts made by \<^verbatim>\<open>app.use(path, router)\<close>: the path and the router's stack.
  \<open>exitHooks\<close> is the array that the running \<^verbatim>\<open>loadPlugins\<close> call allocated and passes
  to its callees. \<open>repos\<close> are the git checkouts by path. \<open>trace\<close> records, oldest first, every
  file-system, import, call, git and console operation.
\<close>

record host =
  loadedPlugins :: "(string \<times> js_module) list"
  app :: "(string \<times> string list) list"
  exitHooks :: "js_fn list"
  repos :: "(string \<times> repo) list"
  trace :: "event list"

definition emit :: "event \<Rightarrow> host \<Rightarrow> host" where
  "emit e st = st\<lparr>trace := trace st @ [e]\<rparr>"

definition console_log :: "message \<Rightarrow> host \<Rightarrow> host" where
  "console_log m st = emit (ConsoleLog m) st"

definition console_error :: "message \<Rightarrow> host \<Rightarrow> host" where
  "console_error m st = emit (ConsoleError m) st"

text \<open>\<^verbatim>\<open>Map.prototype.has\<close> and \<^verbatim>\<open>Map.prototype.set\<close> on string keys.\<close>

definition map_has :: "(string \<times> 'v) list \<Rightarrow> string \<Rightarrow> bool" where
  "map_has m k = (k \<in> set (map fst m))"

fun map_set :: "(string \<times> 'v) list \<Rightarrow> string \<Rightarrow> 'v \<Rightarrow> (string \<times> 'v) list" where
  "map_set [] k v = [(k, v)]"
| "map_set ((k', v') # m) k v = (if k' = k then (k, v) # m else (k', v') # map_set m k v)"

section \<open>Validating and initializing a plugin\<close>

text \<open>\<^verbatim>\<open>/^[a-z0-9_-]+$/.test(id)\<close>\<close>

definition idChar :: "char \<Rightarrow> bool" where
  "idChar c = (c \<in> set ''abcdefghijklmnopqrstuvwxyz0123456789_-'')"

definition isValidPluginID :: "string \<Rightarrow> bool" where
  "isValidPluginID pid = (pid \<noteq> [] \<and> list_all idChar pid)"

text \<open>
  The loop over \<^verbatim>\<open>['id', 'name', 'description']\<close>: the first field of \<open>info\<close> that is not
  a string, if any. Reading a field throws when \<open>info\<close> is \<^verbatim>\<open>null\<close>.
\<close>

fun missingField :: "js_value \<Rightarrow> string list \<Rightarrow> js_error + string option" where
  "missingField info [] = Inr None"
| "missingField info (field # more_fields) =
     (case member info field of
        Inl e \<Rightarrow> Inl e
      | Inr v \<Rightarrow> if typeof v \<noteq> ''string'' then Inr (Some field) else missingField info more_fields)"

text \<open>The string a value of type string holds; \<^verbatim>\<open>info.id\<close> is one after the loop above
  (\<open>pid\<close> stands for the source's \<^verbatim>\<open>id\<close>, the name of HOL's identity function).\<close>

fun string_of :: "js_value \<Rightarrow> string" where
  "string_of (JStr s) = s"
| "string_of v = []"

text \<open>
  The three reads of \<^verbatim>\<open>initPlugin\<close> from the module, each from the direct export or,
  when that is falsy, from the default export: \<^verbatim>\<open>plugin.info || plugin.default?.info\<close>
  and likewise \<^verbatim>\<open>init\<close> and \<^verbatim>\<open>exit\<close>; and \<^verbatim>\<open>const { id } = info\<close>.
\<close>

definition info_of :: "js_module \<Rightarrow> js_value" where
  "info_of plugin = js_or (own plugin ''info'') (optional_member (own plugin ''default'') ''info'')"

definition init_of :: "js_module \<Rightarrow> js_value" where
  "init_of plugin = js_or (own plugin ''init'') (optional_member (own plugin ''default'') ''init'')"

definition exit_of :: "js_module \<Rightarrow> js_value" where
  "exit_of plugin = js_or (own plugin ''exit'') (optional_member (own plugin ''default'') ''exit'')"

definition id_of :: "js_module \<Rightarrow> string" where
  "id_of plugin = string_of (optional_member (info_of plugin) ''id'')"

text \<open>
  The checks of lines 176 to 201 on \<open>info\<close> and on the id, all passed: \<open>info\<close> has type
  object, none of the three fields is missing, the id is valid.
\<close>

definition descriptor_ok :: "js_module \<Rightarrow> bool" where
  "descriptor_ok plugin =
     (typeof (info_of plugin) = ''object''
      \<and> missingField (info_of plugin) [''id'', ''name'', ''description''] = Inr None
      \<and> isValidPluginID (id_of plugin))"

text \<open>
  Lines 208 to 225 of \<^verbatim>\<open>initPlugin\<close>: a fresh router, \<^verbatim>\<open>await init(router)\<close>, the entry in
  \<open>loadedPlugins\<close>, the mount when the router's stack is not empty, the exit hook.
\<close>

definition initPlugin_register :: "js_module \<Rightarrow> string \<Rightarrow> js_fn \<Rightarrow> host \<Rightarrow> host \<times> (js_error + bool)" where
  "initPlugin_register plugin pid init st =
     (let st1 = emit (Call (fn_name init)) st in
      case fn_completion init of
        Throws e \<Rightarrow> (st1, Inl e)
      | Rejects e \<Rightarrow> (st1, Inl e)
      | Returns \<Rightarrow>
          (let router = fn_routes init;
               st2 = st1\<lparr>loadedPlugins := map_set (loadedPlugins st1) pid plugin\<rparr>;
               st3 = (if length router > 0
                      then st2\<lparr>app := app st2 @ [(''/api/plugins/'' @ pid, router)]\<rparr>
                      else st2)
           in case exit_of plugin of
                JFun exit ps \<Rightarrow> (st3\<lparr>exitHooks := exitHooks st3 @ [exit]\<rparr>, Inr True)
              | _ \<Rightarrow> (st3, Inr True)))"

text \<open>
  \<^verbatim>\<open>initPlugin\<close>. A value whose \<^verbatim>\<open>typeof\<close> is \<^verbatim>\<open>'function'\<close> is a \<open>JFun\<close>, so the test of
  \<open>init\<close> is the case distinction below.
\<close>

definition initPlugin :: "js_module \<Rightarrow> host \<Rightarrow> host \<times> (js_error + bool)" where
  "initPlugin plugin st =
     (let info = info_of plugin in
      if typeof info \<noteq> ''object'' then (console_error InfoNotFound st, Inr False)
      else
        case missingField info [''id'', ''name'', ''description''] of
          Inl e \<Rightarrow> (st, Inl e)
        | Inr (Some field) \<Rightarrow> (console_error (MissingField field) st, Inr False)
        | Inr None \<Rightarrow>
            (case init_of plugin of
               JFun init ps \<Rightarrow>
                 (let pid = id_of plugin in
                  if \<not> isValidPluginID pid then (console_error (InvalidPluginID pid) st, Inr False)
                  else if map_has (loadedPlugins st) pid then (console_error (IDInUse pid) st, Inr False)
                  else initPlugin_register plugin pid init st)
             | _ \<Rightarrow> (console_error NoInitFunction st, Inr False)))"

section \<open>The environment of a run\<close>

text \<open>
  What a run reads and does not own: the two configuration flags, the file system
  (\<^verbatim>\<open>fs.existsSync\<close>, \<^verbatim>\<open>fs.readdirSync\<close>, \<^verbatim>\<open>fs.statSync(p).isDirectory()\<close>), the parse
  of a manifest (\<^verbatim>\<open>JSON.parse(fs.readFileSync(p, 'utf8'))\<close>, which can throw), the dynamic
  import of a file (which can throw), whether the git command exists, and the functions of
  node's \<^verbatim>\<open>path\<close> module. Listing and \<^verbatim>\<open>stat\<close> are taken to succeed on the paths the loader
  gives them.
\<close>

record env =
  enableServerPlugins :: bool
  enableServerPluginsAutoUpdate :: bool
  existsSync :: "string \<Rightarrow> bool"
  readdirSync :: "string \<Rightarrow> string list"
  isDirectory :: "string \<Rightarrow> bool"
  readJSON :: "string \<Rightarrow> js_error + js_value"
  importModule :: "string \<Rightarrow> js_error + js_module"
  commandExistsSync :: "string \<Rightarrow> bool"
  path_join :: "string \<Rightarrow> string \<Rightarrow> string"
  path_dirname :: "string \<Rightarrow> string"
  path_extname :: "string \<Rightarrow> string"

definition isCommonJS :: "env \<Rightarrow> string \<Rightarrow> bool" where
  "isCommonJS env file = (path_extname env file = ''.js'' \<or> path_extname env file = ''.cjs'')"

definition isESModule :: "env \<Rightarrow> string \<Rightarrow> bool" where
  "isESModule env file = (path_extname env file = ''.mjs'')"

section \<open>Loading from a file, a package, a directory\<close>

definition loadFromFile :: "env \<Rightarrow> string \<Rightarrow> host \<Rightarrow> host \<times> (js_error + bool)" where
  "loadFromFile env pluginFilePath st =
     (let st1 = emit (Import pluginFilePath) st in
      case importModule env pluginFilePath of
        Inl error \<Rightarrow> (console_error (FailedToLoad pluginFilePath error) st1, Inr False)
      | Inr plugin \<Rightarrow>
          (case initPlugin plugin (console_log (Initializing pluginFilePath) st1) of
             (st2, Inl error) \<Rightarrow> (console_error (FailedToLoad pluginFilePath error) st2, Inr False)
           | (st2, Inr ok) \<Rightarrow> (st2, Inr ok)))"

text \<open>
  \<^verbatim>\<open>path.join\<close> throws a TypeError on an argument that is not a string; the \<^verbatim>\<open>try\<close> of
  \<^verbatim>\<open>loadFromPackage\<close> catches it like every other throw of its body.
\<close>

definition loadFromPackage :: "env \<Rightarrow> string \<Rightarrow> host \<Rightarrow> host \<times> (js_error + bool)" where
  "loadFromPackage env packageJsonPath st =
     (let st1 = emit (ReadFileSync packageJsonPath) st in
      case readJSON env packageJsonPath of
        Inl error \<Rightarrow> (console_error (FailedToLoad packageJsonPath error) st1, Inr False)
      | Inr packageJson \<Rightarrow>
          (case member packageJson ''main'' of
             Inl error \<Rightarrow> (console_error (FailedToLoad packageJsonPath error) st1, Inr False)
           | Inr main \<Rightarrow>
               if truthy main then
                 (case main of
                    JStr m \<Rightarrow>
                      (case loadFromFile env (path_join env (path_dirname env packageJsonPath) m) st1 of
                         (st2, Inl error) \<Rightarrow>
                           (console_error (FailedToLoad packageJsonPath error) st2, Inr False)
                       | (st2, Inr ok) \<Rightarrow> (st2, Inr ok))
                  | _ \<Rightarrow>
                      (console_error
                         (FailedToLoad packageJsonPath (JsTypeError ''The paths[1] argument must be of type string''))
                         st1, Inr False))
               else (st1, Inr False)))"

text \<open>The loop of \<^verbatim>\<open>loadFromDirectory\<close> over \<^verbatim>\<open>['index.js', 'index.cjs', 'index.mjs']\<close>.\<close>

fun loadFromDirectory_fileTypes :: "env \<Rightarrow> string \<Rightarrow> string list \<Rightarrow> host \<Rightarrow> host \<times> (js_error + unit)" where
  "loadFromDirectory_fileTypes env pluginDirectoryPath [] st = (st, Inr ())"
| "loadFromDirectory_fileTypes env pluginDirectoryPath (fileType # fileTypes) st =
     (let filePath = path_join env pluginDirectoryPath fileType;
          st1 = emit (ExistsSync filePath) st
      in if existsSync env filePath then
           (case loadFromFile env filePath st1 of
              (st2, Inl error) \<Rightarrow> (st2, Inl error)
            | (st2, Inr ok) \<Rightarrow>
                if ok then (st2, Inr ())
                else loadFromDirectory_fileTypes env pluginDirectoryPath fileTypes st2)
         else loadFromDirectory_fileTypes env pluginDirectoryPath fileTypes st1)"

definition fileTypes :: "string list" where
  "fileTypes = [''index.js'', ''index.cjs'', ''index.mjs'']"

definition loadFromDirectory :: "env \<Rightarrow> string \<Rightarrow> host \<Rightarrow> host \<times> (js_error + unit)" where
  "loadFromDirectory env pluginDirectoryPath st =
     (let st1 = emit (ReaddirSync pluginDirectoryPath) st in
      if length (readdirSync env pluginDirectoryPath) = 0 then (st1, Inr ())
      else
        (let packageJsonFilePath = path_join env pluginDirectoryPath ''package.json'';
             st2 = emit (ExistsSync packageJsonFilePath) st1
         in if existsSync env packageJsonFilePath then
              (case loadFromPackage env packageJsonFilePath st2 of
                 (st3, Inl error) \<Rightarrow> (st3, Inl error)
               | (st3, Inr ok) \<Rightarrow>
                   if ok then (st3, Inr ())
                   else loadFromDirectory_fileTypes env pluginDirectoryPath fileTypes st3)
            else loadFromDirectory_fileTypes env pluginDirectoryPath fileTypes st2))"

section \<open>Updating the git checkouts\<close>

text \<open>\<^verbatim>\<open>file.startsWith('.')\<close>\<close>

fun startsWithDot :: "string \<Rightarrow> bool" where
  "startsWithDot [] = False"
| "startsWithDot (c # cs) = (c = CHR ''.'')"

text \<open>
  The body of the \<^verbatim>\<open>try\<close> in the loop of \<^verbatim>\<open>updatePlugins\<close>, for the directory at
  \<open>pluginPath\<close>, on the host and the counter \<open>pluginsToUpdate\<close>: \<open>Inr ()\<close> when it ends
  (by either \<^verbatim>\<open>continue\<close> or after the pull), \<open>Inl\<close> when an operation of the git
  library rejected. A directory without an entry in \<open>repos\<close> is not a checkout. A pull
  that succeeds moves \<^verbatim>\<open>HEAD\<close> to the commit it yields.
\<close>

definition updatePlugins_repo ::
  "string \<Rightarrow> string \<Rightarrow> repo \<Rightarrow> host \<times> nat \<Rightarrow> (host \<times> nat) \<times> (js_error + unit)" where
  "updatePlugins_repo directory pluginPath pluginRepo s =
     (let st1 = fst s; pluginsToUpdate = snd s in
      case is_repo pluginRepo of
        Inl error \<Rightarrow> ((st1, pluginsToUpdate), Inl error)
      | Inr isRepo \<Rightarrow>
          if \<not> isRepo then ((st1, pluginsToUpdate), Inr ())
          else
            (let st2 = emit (Fetch pluginPath) st1 in
             case fetch_result pluginRepo of
               Inl error \<Rightarrow> ((st2, pluginsToUpdate), Inl error)
             | Inr u \<Rightarrow>
                 (let st3 = emit (RevparseHead pluginPath) st2 in
                  case head pluginRepo of
                    Inl error \<Rightarrow> ((st3, pluginsToUpdate), Inl error)
                  | Inr commitHash \<Rightarrow>
                      (let st4 = emit (RevparseUpstream pluginPath) st3 in
                       case tracking pluginRepo of
                         Inl error \<Rightarrow> ((st4, pluginsToUpdate), Inl error)
                       | Inr trackingBranch \<Rightarrow>
                           (let st5 = emit (GitLog pluginPath) st4 in
                            case log_total pluginRepo of
                              Inl error \<Rightarrow> ((st5, pluginsToUpdate), Inl error)
                            | Inr logTotal \<Rightarrow>
                                if logTotal = 0 then ((st5, pluginsToUpdate), Inr ())
                                else
                                  (let st6 = emit (Pull pluginPath) st5 in
                                   case pull_result pluginRepo of
                                     Inl error \<Rightarrow> ((st6, pluginsToUpdate + 1), Inl error)
                                   | Inr latestCommit \<Rightarrow>
                                       ((console_log (PluginUpdated directory latestCommit)
                                           (emit (RevparseHead pluginPath)
                                              (st6\<lparr>repos := map_set (repos st6) pluginPath
                                                 (pluginRepo\<lparr>head := Inr latestCommit\<rparr>)\<rparr>)),
                                         pluginsToUpdate + 1),
                                        Inr ())))))))"

definition updatePlugins_try ::
  "string \<Rightarrow> string \<Rightarrow> host \<times> nat \<Rightarrow> (host \<times> nat) \<times> (js_error + unit)" where
  "updatePlugins_try directory pluginPath s =
     (let st1 = emit (CheckIsRepo pluginPath) (fst s) in
      case map_of (repos st1) pluginPath of
        None \<Rightarrow> ((st1, snd s), Inr ())
      | Some pluginRepo \<Rightarrow> updatePlugins_repo directory pluginPath pluginRepo (st1, snd s))"

text \<open>The loop of \<^verbatim>\<open>updatePlugins\<close> over \<open>directories\<close>, with its \<^verbatim>\<open>catch\<close>.\<close>

fun updatePlugins_loop :: "env \<Rightarrow> string \<Rightarrow> string list \<Rightarrow> host \<times> nat \<Rightarrow> host \<times> nat" where
  "updatePlugins_loop env pluginsPath [] s = s"
| "updatePlugins_loop env pluginsPath (directory # directories) s =
     (case updatePlugins_try directory (path_join env pluginsPath directory) s of
        ((st1, n), Inl error) \<Rightarrow>
          updatePlugins_loop env pluginsPath directories
            (console_error (FailedToUpdate directory error) st1, n)
      | ((st1, n), Inr u) \<Rightarrow> updatePlugins_loop env pluginsPath directories (st1, n))"

text \<open>
  \<^verbatim>\<open>fs.readdirSync(pluginsPath).filter(...).filter(...)\<close>: the second filter calls
  \<^verbatim>\<open>statSync\<close> on the names the first one kept.
\<close>

definition updatePlugins_directories :: "env \<Rightarrow> string \<Rightarrow> string list" where
  "updatePlugins_directories env pluginsPath =
     filter (\<lambda>file. isDirectory env (path_join env pluginsPath file))
       (filter (\<lambda>file. \<not> startsWithDot file) (readdirSync env pluginsPath))"

definition updatePlugins :: "env \<Rightarrow> string \<Rightarrow> host \<Rightarrow> host \<times> (js_error + unit)" where
  "updatePlugins env pluginsPath st =
     (if \<not> enableServerPluginsAutoUpdate env then (st, Inr ())
      else
        (let directories = updatePlugins_directories env pluginsPath;
             st1 = st\<lparr>trace := trace st @ ReaddirSync pluginsPath #
                     map (\<lambda>file. StatSync (path_join env pluginsPath file))
                       (filter (\<lambda>file. \<not> startsWithDot file) (readdirSync env pluginsPath))\<rparr>
         in if length directories = 0 then (st1, Inr ())
            else
              (let st2 = emit (CommandExists ''git'') (console_log AutoUpdating st1) in
               if \<not> commandExistsSync env ''git'' then (console_error GitNotInstalled st2, Inr ())
               else
                 (case updatePlugins_loop env pluginsPath directories (st2, 0) of
                    (st3, pluginsToUpdate) \<Rightarrow>
                      if pluginsToUpdate = 0 then (console_log AllUpToDate st3, Inr ())
                      else (st3, Inr ())))))"

section \<open>The orchestrator and the cleanup function\<close>

text \<open>
  What \<^verbatim>\<open>loadPlugins\<close> resolves to: \<^verbatim>\<open>emptyFn\<close>, or the arrow function closing over the
  \<open>exitHooks\<close> array.
\<close>

datatype cleanup = EmptyFn | CallExitHooks "js_fn list"

text \<open>The loop of \<^verbatim>\<open>loadPlugins\<close> over \<open>files\<close>.\<close>

fun loadPlugins_loop :: "env \<Rightarrow> string \<Rightarrow> string list \<Rightarrow> host \<Rightarrow> host \<times> (js_error + unit)" where
  "loadPlugins_loop env pluginsPath [] st = (st, Inr ())"
| "loadPlugins_loop env pluginsPath (file # files) st =
     (let pluginFilePath = path_join env pluginsPath file;
          st1 = emit (StatSync pluginFilePath) st
      in if isDirectory env pluginFilePath then
           (case loadFromDirectory env pluginFilePath st1 of
              (st2, Inl error) \<Rightarrow> (st2, Inl error)
            | (st2, Inr u) \<Rightarrow> loadPlugins_loop env pluginsPath files st2)
         else if \<not> isCommonJS env file \<and> \<not> isESModule env file then
           loadPlugins_loop env pluginsPath files st1
         else
           (case loadFromFile env pluginFilePath st1 of
              (st2, Inl error) \<Rightarrow> (st2, Inl error)
            | (st2, Inr ok) \<Rightarrow> loadPlugins_loop env pluginsPath files st2))"

definition loadPlugins :: "env \<Rightarrow> string \<Rightarrow> host \<Rightarrow> host \<times> (js_error + cleanup)" where
  "loadPlugins env pluginsPath st0 =
     (let st = st0\<lparr>exitHooks := []\<rparr> in
      if \<not> enableServerPlugins env then (st, Inr EmptyFn)
      else
        (let st1 = emit (ExistsSync pluginsPath) st in
         if \<not> existsSync env pluginsPath then (st1, Inr EmptyFn)
         else
           (let files = readdirSync env pluginsPath;
                st2 = emit (ReaddirSync pluginsPath) st1
            in if length files = 0 then (st2, Inr EmptyFn)
               else
                 (case updatePlugins env pluginsPath st2 of
                    (st3, Inl error) \<Rightarrow> (st3, Inl error)
                  | (st3, Inr u) \<Rightarrow>
                      (case loadPlugins_loop env pluginsPath files st3 of
                         (st4, Inl error) \<Rightarrow> (st4, Inl error)
                       | (st4, Inr u') \<Rightarrow>
                           (if length (loadedPlugins st4) > 0
                            then console_log (PluginsLoaded (length (loadedPlugins st4))) st4
                            else st4,
                            Inr (CallExitHooks (exitHooks st4))))))))"

text \<open>
  A promise: its position in the order of settlement, and the reason when it rejects.
\<close>

datatype promise = Promise nat "js_error option"

text \<open>
  \<^verbatim>\<open>Promise.all\<close>: it fulfils when every promise has fulfilled, and rejects with the reason
  of the first promise to reject, the earlier in the array when two settle at one position.
\<close>

fun first_rejection :: "promise list \<Rightarrow> (nat \<times> js_error) option" where
  "first_rejection [] = None"
| "first_rejection (Promise t None # ps) = first_rejection ps"
| "first_rejection (Promise t (Some e) # ps) =
     (case first_rejection ps of
        None \<Rightarrow> Some (t, e)
      | Some (t', e') \<Rightarrow> if t' < t then Some (t', e') else Some (t, e))"

fun last_settlement :: "promise list \<Rightarrow> nat" where
  "last_settlement [] = 0"
| "last_settlement (Promise t r # ps) = max t (last_settlement ps)"

definition promise_all :: "promise list \<Rightarrow> promise" where
  "promise_all ps =
     (case first_rejection ps of
        None \<Rightarrow> Promise (last_settlement ps) None
      | Some (t, e) \<Rightarrow> Promise t (Some e))"

text \<open>
  \<^verbatim>\<open>exitHooks.map(exitFn => exitFn())\<close>: the hooks are called in the order of the array;
  a hook that throws ends the \<^verbatim>\<open>map\<close>. The result is the trace of the calls made and the
  promises collected, or the exception.
\<close>

fun map_exitFn :: "js_fn list \<Rightarrow> event list \<times> (js_error + promise list)" where
  "map_exitFn [] = ([], Inr [])"
| "map_exitFn (exitFn # hooks) =
     (case fn_completion exitFn of
        Throws e \<Rightarrow> ([Call (fn_name exitFn)], Inl e)
      | Returns \<Rightarrow>
          (case map_exitFn hooks of
             (calls, Inl e) \<Rightarrow> (Call (fn_name exitFn) # calls, Inl e)
           | (calls, Inr ps) \<Rightarrow>
               (Call (fn_name exitFn) # calls, Inr (Promise (fn_settles exitFn) None # ps)))
      | Rejects r \<Rightarrow>
          (case map_exitFn hooks of
             (calls, Inl e) \<Rightarrow> (Call (fn_name exitFn) # calls, Inl e)
           | (calls, Inr ps) \<Rightarrow>
               (Call (fn_name exitFn) # calls, Inr (Promise (fn_settles exitFn) (Some r) # ps))))"

text \<open>
  What a call of the cleanup function returns: \<^verbatim>\<open>undefined\<close> for \<^verbatim>\<open>emptyFn\<close>, the promise
  of \<^verbatim>\<open>Promise.all\<close> otherwise.
\<close>

datatype returned = ReturnedUndefined | ReturnedPromise promise

fun call_cleanup :: "cleanup \<Rightarrow> event list \<times> (js_error + returned)" where
  "call_cleanup EmptyFn = ([], Inr ReturnedUndefined)"
| "call_cleanup (CallExitHooks hooks) =
     (case map_exitFn hooks of
        (calls, Inl e) \<Rightarrow> (calls, Inl e)
      | (calls, Inr ps) \<Rightarrow> (calls, Inr (ReturnedPromise (promise_all ps))))"

text \<open>The events a run has added to the trace, from the host before to the host after.\<close>

definition events_since :: "host \<Rightarrow> host \<Rightarrow> event list" where
  "events_since st st' = drop (length (trace st)) (trace st')"

text \<open>
  The registry of \<open>st'\<close> keeps the entries of the registry of \<open>st\<close>, in their places and
  before every other entry, and has no two entries for one id if that of \<open>st\<close> has none.
\<close>

definition registry_kept :: "host \<Rightarrow> host \<Rightarrow> bool" where
  "registry_kept st st' =
     (prefix (loadedPlugins st) (loadedPlugins st')
      \<and> (distinct (map fst (loadedPlugins st)) \<longrightarrow> distinct (map fst (loadedPlugins st'))))"

text \<open>The checkout a git operation in the trace ran on.\<close>

fun git_path :: "event \<Rightarrow> string option" where
  "git_path (CheckIsRepo p) = Some p"
| "git_path (Fetch p) = Some p"
| "git_path (RevparseHead p) = Some p"
| "git_path (RevparseUpstream p) = Some p"
| "git_path (GitLog p) = Some p"
| "git_path (Pull p) = Some p"
| "git_path e = None"

section \<open>A plugins directory for the examples\<close>

text \<open>
  The functions of \<^verbatim>\<open>path\<close> on the names of the examples: a normalized directory joined with
  a plain name, the directory of such a path, the extension of a file name.
\<close>

definition posix_join :: "string \<Rightarrow> string \<Rightarrow> string" where
  "posix_join a b = a @ ''/'' @ b"

definition posix_dirname :: "string \<Rightarrow> string" where
  "posix_dirname p = rev (tl (dropWhile (\<lambda>c. c \<noteq> CHR ''/'') (rev p)))"

definition posix_extname :: "string \<Rightarrow> string" where
  "posix_extname f =
     (let ext = takeWhile (\<lambda>c. c \<noteq> CHR ''.'') (rev f) in
      if CHR ''.'' \<notin> set f \<or> length f \<le> length ext + 1 then [] else CHR ''.'' # rev ext)"

definition example_fn :: "string \<Rightarrow> string list \<Rightarrow> completion \<Rightarrow> nat \<Rightarrow> js_fn" where
  "example_fn name routes c t = \<lparr>fn_name = name, fn_routes = routes, fn_completion = c, fn_settles = t\<rparr>"

definition example_info :: "string \<Rightarrow> js_value" where
  "example_info pid =
     JObj [(''id'', JStr pid), (''name'', JStr ''Example''), (''description'', JStr ''An example plugin'')]"

text \<open>
  A module with the exports \<^verbatim>\<open>info\<close>, \<^verbatim>\<open>init\<close> and \<^verbatim>\<open>exit\<close>: \<open>init\<close> is named after the id,
  registers \<open>routes\<close> and ends as \<open>c\<close> says.
\<close>

definition example_plugin :: "string \<Rightarrow> string list \<Rightarrow> completion \<Rightarrow> js_value \<Rightarrow> js_module" where
  "example_plugin pid routes c exit =
     [(''info'', example_info pid), (''init'', JFun (example_fn (pid @ ''.init'') routes c 0) []),
      (''exit'', exit)]"

definition foo_js :: js_module where
  "foo_js = example_plugin ''foo'' [''/probe''] Returns JUndefined"

definition bar_entry_js :: js_module where
  "bar_entry_js =
     [(''default'', JObj (example_plugin ''bar'' [] Returns (JFun (example_fn ''bar.exit'' [] Returns 1) [])))]"

definition dup_js :: js_module where
  "dup_js = example_plugin ''foo'' [''/other''] Returns (JFun (example_fn ''dup.exit'' [] Returns 1) [])"

definition bad_js :: js_module where
  "bad_js =
     example_plugin ''bad'' [''/bad''] (Throws (JsError ''init failed''))
       (JFun (example_fn ''bad.exit'' [] Returns 1) [])"

definition hidden_index_js :: js_module where
  "hidden_index_js = example_plugin ''hidden'' [] Returns JUndefined"

definition fallback_entry_js :: js_module where
  "fallback_entry_js = example_plugin ''fallback-main'' [] (Rejects (JsError ''no database'')) JUndefined"

definition fallback_index_js :: js_module where
  "fallback_index_js = example_plugin ''fallback'' [''/status''] Returns JUndefined"

definition ext_index_mjs :: js_module where
  "ext_index_mjs = example_plugin ''ext'' [''/ext''] Returns JUndefined"

definition probe_index_cjs :: js_module where
  "probe_index_cjs = example_plugin ''probe'' [] Returns JUndefined"

definition null_mjs :: js_module where
  "null_mjs = [(''default'', JObj [(''info'', JNull), (''init'', JFun (example_fn ''null.init'' [] Returns 0) [])])]"

definition t1_exit :: js_fn where
  "t1_exit = example_fn ''t1.exit'' [] (Throws (JsError ''t1 failed'')) 0"

definition t2_exit :: js_fn where
  "t2_exit = example_fn ''t2.exit'' [] Returns 2"

definition t3_exit :: js_fn where
  "t3_exit = example_fn ''t3.exit'' [] Returns 1"

definition r1_exit :: js_fn where
  "r1_exit = example_fn ''r1.exit'' [] (Rejects (JsError ''r1 failed'')) 5"

definition r2_exit :: js_fn where
  "r2_exit = example_fn ''r2.exit'' [] (Rejects (JsError ''r2 failed'')) 3"

definition example_modules :: "(string \<times> (js_error + js_module)) list" where
  "example_modules =
     [(''plugins/foo.js'', Inr foo_js),
      (''plugins/bar/entry.js'', Inr bar_entry_js),
      (''plugins/baz.js'', Inl (JsError ''Unexpected token'')),
      (''plugins/dup.js'', Inr dup_js),
      (''plugins/bad.js'', Inr bad_js),
      (''plugins/.hidden/index.js'', Inr hidden_index_js),
      (''plugins/fallback/entry.js'', Inr fallback_entry_js),
      (''plugins/fallback/index.js'', Inr fallback_index_js),
      (''plugins/ext/index.mjs'', Inr ext_index_mjs),
      (''plugins/probe/index.js'', Inl (JsError ''Unexpected token'')),
      (''plugins/probe/index.cjs'', Inr probe_index_cjs),
      (''plugins/null.mjs'', Inr null_mjs),
      (''plugins/t1.js'', Inr (example_plugin ''t1'' [] Returns (JFun t1_exit []))),
      (''plugins/t2.js'', Inr (example_plugin ''t2'' [] Returns (JFun t2_exit []))),
      (''plugins/t3.js'', Inr (example_plugin ''t3'' [] Returns (JFun t3_exit []))),
      (''plugins/r1.js'', Inr (example_plugin ''r1'' [] Returns (JFun r1_exit []))),
      (''plugins/r2.js'', Inr (example_plugin ''r2'' [] Returns (JFun r2_exit [])))]"

definition example_directories :: "(string \<times> string list) list" where
  "example_directories =
     [(''plugins/bar'', [''package.json'', ''entry.js'']),
      (''plugins/.hidden'', [''index.js'']),
      (''plugins/fallback'', [''package.json'', ''entry.js'', ''index.js'']),
      (''plugins/ext'', [''index.mjs'']),
      (''plugins/probe'', [''index.js'', ''index.cjs'']),
      (''plugins/docs'', [''README.md'']),
      (''plugins/empty'', [])]"

definition example_manifests :: "(string \<times> (js_error + js_value)) list" where
  "example_manifests =
     [(''plugins/bar/package.json'', Inr (JObj [(''name'', JStr ''bar''), (''main'', JStr ''entry.js'')])),
      (''plugins/fallback/package.json'', Inr (JObj [(''main'', JStr ''entry.js'')]))]"

definition example_env :: "string list \<Rightarrow> env" where
  "example_env files =
     \<lparr>enableServerPlugins = True,
      enableServerPluginsAutoUpdate = True,
      existsSync = (\<lambda>p. p = ''plugins'' \<or> map_has example_modules p \<or> map_has example_directories p
                         \<or> map_has example_manifests p),
      readdirSync = (\<lambda>p. if p = ''plugins'' then files
                          else case map_of example_directories p of None \<Rightarrow> [] | Some names \<Rightarrow> names),
      isDirectory = (\<lambda>p. p = ''plugins'' \<or> map_has example_directories p),
      readJSON = (\<lambda>p. case map_of example_manifests p of
                         None \<Rightarrow> Inl (JsError ''ENOENT'') | Some r \<Rightarrow> r),
      importModule = (\<lambda>p. case map_of example_modules p of
                             None \<Rightarrow> Inl (JsError ''Cannot find module'') | Some r \<Rightarrow> r),
      commandExistsSync = (\<lambda>c. c = ''git''),
      path_join = posix_join,
      path_dirname = posix_dirname,
      path_extname = posix_extname\<rparr>"

definition example_repo :: "nat \<Rightarrow> js_error + string \<Rightarrow> repo" where
  "example_repo n pulled =
     \<lparr>is_repo = Inr True, fetch_result = Inr (), head = Inr ''a1b2c3'', tracking = Inr ''origin/main'',
      log_total = Inr n, pull_result = pulled\<rparr>"

definition example_host :: host where
  "example_host =
     \<lparr>loadedPlugins = [], app = [], exitHooks = [],
      repos = [(''plugins/bar'', example_repo 0 (Inr ''a1b2c3'')),
               (''plugins/fallback'', example_repo 2 (Inl (JsError ''merge conflict''))),
               (''plugins/.hidden'', example_repo 1 (Inr ''d4e5f6'')),
               (''plugins/ext'', example_repo 3 (Inr ''f7a8b9''))],
      trace = []\<rparr>"

section \<open>No failure of a candidate escapes\<close>

text \<open>
  Every function below \<^verbatim>\<open>loadPlugins\<close> that has a \<^verbatim>\<open>try\<close> returns: what its body throws
  reaches the \<^verbatim>\<open>catch\<close>. The functions without one only call functions that return.
\<close>

lemma loadFromFile_returns: "\<exists>st' ok. loadFromFile env pluginFilePath st = (st', Inr ok)"
  by (auto simp: loadFromFile_def Let_def split: sum.splits prod.splits)

lemma loadFromPackage_returns: "\<exists>st' ok. loadFromPackage env packageJsonPath st = (st', Inr ok)"
  using loadFromFile_returns
  by (auto simp: loadFromPackage_def Let_def split: sum.splits prod.splits js_value.splits)

lemma loadFromDirectory_fileTypes_returns:
  "\<exists>st'. loadFromDirectory_fileTypes env d ts st = (st', Inr ())"
proof (induction ts arbitrary: st)
  case Nil
  show ?case by simp
next
  case (Cons t ts)
  obtain st2 ok where
    "loadFromFile env (path_join env d t) (emit (ExistsSync (path_join env d t)) st) = (st2, Inr ok)"
    using loadFromFile_returns by blast
  then show ?case
    using Cons.IH by (simp add: Let_def)
qed

lemma loadFromDirectory_returns: "\<exists>st'. loadFromDirectory env d st = (st', Inr ())"
proof -
  let ?st2 = "emit (ExistsSync (path_join env d ''package.json'')) (emit (ReaddirSync d) st)"
  obtain st3 ok where "loadFromPackage env (path_join env d ''package.json'') ?st2 = (st3, Inr ok)"
    using loadFromPackage_returns by blast
  then show ?thesis
    using loadFromDirectory_fileTypes_returns by (simp add: loadFromDirectory_def Let_def)
qed








section \<open>Validation and registration\<close>

lemma typeof_function: "typeof v = ''function'' \<longleftrightarrow> (\<exists>f ps. v = JFun f ps)"
  by (cases v) auto

lemma typeof_object: "typeof v = ''object'' \<longleftrightarrow> v = JNull \<or> (\<exists>ps. v = JObj ps)"
  by (cases v) auto

text \<open>
  What \<^verbatim>\<open>initPlugin\<close> does on a module whose \<open>info\<close> is not \<^verbatim>\<open>null\<close>, check by check in
  the order of the source: each failed check logs its own message and returns \<^verbatim>\<open>false\<close>.
\<close>

lemma initPlugin_checks:
  assumes "info_of plugin \<noteq> JNull"
  shows "initPlugin plugin st =
     (if typeof (info_of plugin) \<noteq> ''object'' then (console_error InfoNotFound st, Inr False)
      else if typeof (optional_member (info_of plugin) ''id'') \<noteq> ''string''
        then (console_error (MissingField ''id'') st, Inr False)
      else if typeof (optional_member (info_of plugin) ''name'') \<noteq> ''string''
        then (console_error (MissingField ''name'') st, Inr False)
      else if typeof (optional_member (info_of plugin) ''description'') \<noteq> ''string''
        then (console_error (MissingField ''description'') st, Inr False)
      else case init_of plugin of
             JFun init ps \<Rightarrow>
               if \<not> isValidPluginID (id_of plugin)
                 then (console_error (InvalidPluginID (id_of plugin)) st, Inr False)
               else if map_has (loadedPlugins st) (id_of plugin)
                 then (console_error (IDInUse (id_of plugin)) st, Inr False)
               else initPlugin_register plugin (id_of plugin) init st
           | _ \<Rightarrow> (console_error NoInitFunction st, Inr False))"
proof (cases "typeof (info_of plugin) = ''object''")
  case False
  then show ?thesis by (simp add: initPlugin_def)
next
  case True
  then obtain fields where "info_of plugin = JObj fields"
    using assms typeof_object by blast
  then show ?thesis
    by (simp add: initPlugin_def Let_def split: js_value.splits)
qed

lemma initPlugin_validated:
  assumes "descriptor_ok plugin" and "init_of plugin = JFun init ps"
  shows "initPlugin plugin st =
           (if map_has (loadedPlugins st) (id_of plugin)
            then (console_error (IDInUse (id_of plugin)) st, Inr False)
            else initPlugin_register plugin (id_of plugin) init st)"
  using assms by (simp add: initPlugin_def descriptor_ok_def Let_def)

lemma map_set_fresh: "\<not> map_has m k \<Longrightarrow> map_set m k v = m @ [(k, v)]"
  by (induction m) (auto simp: map_has_def)

lemma initPlugin_register_Returns:
  assumes "fn_completion init = Returns" and "\<not> map_has (loadedPlugins st) pid"
  shows "initPlugin_register plugin pid init st =
           (st\<lparr>loadedPlugins := loadedPlugins st @ [(pid, plugin)],
               app := (if fn_routes init = [] then app st
                       else app st @ [(''/api/plugins/'' @ pid, fn_routes init)]),
               exitHooks := (case exit_of plugin of
                               JFun exit ps \<Rightarrow> exitHooks st @ [exit] | _ \<Rightarrow> exitHooks st),
               trace := trace st @ [Call (fn_name init)]\<rparr>, Inr True)"
  using assms
  by (simp add: initPlugin_register_def Let_def emit_def map_set_fresh split: js_value.splits)

lemma initPlugin_register_fails:
  assumes "fn_completion init = Throws e \<or> fn_completion init = Rejects e"
  shows "initPlugin_register plugin pid init st = (emit (Call (fn_name init)) st, Inl e)"
  using assms by (auto simp: initPlugin_register_def Let_def)

text \<open>
  C3. The module \<^verbatim>\<open>null.mjs\<close> has the default export \<^verbatim>\<open>{ info: null, init }\<close>. Its \<open>info\<close>
  is \<^verbatim>\<open>null\<close>, whose \<^verbatim>\<open>typeof\<close> is \<^verbatim>\<open>'object'\<close>, so the test for a missing descriptor lets it
  pass and reading \<^verbatim>\<open>info['id']\<close> throws a TypeError: \<^verbatim>\<open>initPlugin\<close> throws instead of
  rejecting the module for its missing descriptor, and what \<^verbatim>\<open>loadFromFile\<close> logs is the
  TypeError.
\<close>

theorem initPlugin_null_info_throws:
  "info_of null_mjs = JNull
   \<and> initPlugin null_mjs st = (st, Inl (JsTypeError ''Cannot read properties of null''))
   \<and> initPlugin null_mjs st \<noteq> (console_error InfoNotFound st, Inr False)
   \<and> events_since example_host (fst (loadFromFile (example_env []) ''plugins/null.mjs'' example_host))
       = [Import ''plugins/null.mjs'', ConsoleLog (Initializing ''plugins/null.mjs''),
          ConsoleError (FailedToLoad ''plugins/null.mjs'' (JsTypeError ''Cannot read properties of null''))]"
proof -
  have i: "info_of null_mjs = JNull"
    by code_simp
  have "initPlugin null_mjs st = (st, Inl (JsTypeError ''Cannot read properties of null''))"
    by (simp add: initPlugin_def i)
  moreover have
    "events_since example_host (fst (loadFromFile (example_env []) ''plugins/null.mjs'' example_host))
       = [Import ''plugins/null.mjs'', ConsoleLog (Initializing ''plugins/null.mjs''),
          ConsoleError (FailedToLoad ''plugins/null.mjs'' (JsTypeError ''Cannot read properties of null''))]"
    by code_simp
  ultimately show ?thesis
    using i by simp
qed

text \<open>
  C8. A module that passes validation, whose id is free and whose \<open>init\<close> returns, is
  recorded in \<open>loadedPlugins\<close> and reported as loaded (\<^verbatim>\<open>true\<close>) whether or not it
  registered a route; its router is mounted, at \<^verbatim>\<open>/api/plugins/\<close> followed by its id,
  exactly when \<open>init\<close> registered at least one route, and then the mount is the only change
  to the app.
\<close>

theorem routes_mounted_iff_registered:
  assumes "descriptor_ok plugin" and "init_of plugin = JFun init ps"
    and "\<not> map_has (loadedPlugins st) (id_of plugin)" and "fn_completion init = Returns"
  shows "\<exists>st'. initPlugin plugin st = (st', Inr True)
           \<and> loadedPlugins st' = loadedPlugins st @ [(id_of plugin, plugin)]
           \<and> app st' = (if fn_routes init = [] then app st
                         else app st @ [(''/api/plugins/'' @ id_of plugin, fn_routes init)])"
proof -
  have "initPlugin plugin st = initPlugin_register plugin (id_of plugin) init st"
    using assms(1,2,3) by (simp add: initPlugin_validated)
  then show ?thesis
    using initPlugin_register_Returns [OF assms(4) assms(3), of plugin] by simp
qed

text \<open>
  \<^verbatim>\<open>foo.js\<close> registers one route and is mounted at \<^verbatim>\<open>/api/plugins/foo\<close>; the default export of
  \<^verbatim>\<open>bar/entry.js\<close> registers none, is recorded all the same, and the app stays as it was.
\<close>

theorem routes_mounted_iff_registered_example:
  "(\<exists>st'. initPlugin foo_js example_host = (st', Inr True)
      \<and> loadedPlugins st' = [(''foo'', foo_js)]
      \<and> app st' = [(''/api/plugins/foo'', [''/probe''])])
   \<and> (\<exists>st'. initPlugin bar_entry_js example_host = (st', Inr True)
      \<and> loadedPlugins st' = [(''bar'', bar_entry_js)]
      \<and> app st' = [])"
proof -
  have f: "descriptor_ok foo_js" "init_of foo_js = JFun (example_fn ''foo.init'' [''/probe''] Returns 0) []"
    "id_of foo_js = ''foo''"
    by code_simp+
  have b: "descriptor_ok bar_entry_js" "init_of bar_entry_js = JFun (example_fn ''bar.init'' [] Returns 0) []"
    "id_of bar_entry_js = ''bar''"
    by code_simp+
  have h: "loadedPlugins example_host = []" "app example_host = []"
    by (simp_all add: example_host_def)
  show ?thesis
    using routes_mounted_iff_registered [OF f(1) f(2), of example_host]
      routes_mounted_iff_registered [OF b(1) b(2), of example_host]
    by (simp add: f(3) b(3) h map_has_def example_fn_def)
qed

text \<open>
  C5. A module that passes validation, whose id is free and whose \<open>init\<close> throws or returns
  a promise that rejects: \<^verbatim>\<open>initPlugin\<close> throws after the call, \<^verbatim>\<open>loadFromFile\<close> catches,
  logs and returns \<^verbatim>\<open>false\<close>, and the host after differs from the host before in its trace
  only: no entry in \<open>loadedPlugins\<close>, no mount, no exit hook. When the module is a file of
  the plugins directory, the loop goes on with the files after it.
\<close>

theorem init_throws_not_registered:
  assumes "descriptor_ok plugin" and "init_of plugin = JFun init ps"
    and "\<not> map_has (loadedPlugins st) (id_of plugin)"
    and "fn_completion init = Throws e \<or> fn_completion init = Rejects e"
    and "importModule env pluginFilePath = Inr plugin"
  shows "initPlugin plugin st = (emit (Call (fn_name init)) st, Inl e)
       \<and> loadFromFile env pluginFilePath st =
           (st\<lparr>trace := trace st @
                 [Import pluginFilePath, ConsoleLog (Initializing pluginFilePath), Call (fn_name init),
                  ConsoleError (FailedToLoad pluginFilePath e)]\<rparr>, Inr False)
       \<and> (\<not> isDirectory env pluginFilePath \<and> (isCommonJS env file \<or> isESModule env file)
             \<and> pluginFilePath = path_join env pluginsPath file
           \<longrightarrow> loadPlugins_loop env pluginsPath (file # files) st =
                 loadPlugins_loop env pluginsPath files
                   (st\<lparr>trace := trace st @
                        [StatSync pluginFilePath, Import pluginFilePath,
                         ConsoleLog (Initializing pluginFilePath), Call (fn_name init),
                         ConsoleError (FailedToLoad pluginFilePath e)]\<rparr>))"
proof -
  have i: "\<And>s. loadedPlugins s = loadedPlugins st \<Longrightarrow>
             initPlugin plugin s = (emit (Call (fn_name init)) s, Inl e)"
    using assms(1-4) by (simp add: initPlugin_validated initPlugin_register_fails)
  have l: "\<And>s. loadedPlugins s = loadedPlugins st \<Longrightarrow>
             loadFromFile env pluginFilePath s =
               (s\<lparr>trace := trace s @
                   [Import pluginFilePath, ConsoleLog (Initializing pluginFilePath), Call (fn_name init),
                    ConsoleError (FailedToLoad pluginFilePath e)]\<rparr>, Inr False)"
    using assms(5) by (simp add: loadFromFile_def Let_def i emit_def console_log_def console_error_def)
  show ?thesis
    using i [of st] l [of st] l [of "emit (StatSync pluginFilePath) st"]
    by (auto simp: Let_def emit_def)
qed

text \<open>
  The \<open>init\<close> of \<^verbatim>\<open>bad.js\<close> throws: nothing of it is kept, although it exports an exit hook
  and had a route to register, and the loop goes on to \<^verbatim>\<open>foo.js\<close>.
\<close>

theorem init_throws_not_registered_example:
  "initPlugin bad_js example_host = (emit (Call ''bad.init'') example_host, Inl (JsError ''init failed''))
   \<and> loadFromFile (example_env [''bad.js'', ''foo.js'']) ''plugins/bad.js'' example_host =
       (example_host\<lparr>trace :=
          [Import ''plugins/bad.js'', ConsoleLog (Initializing ''plugins/bad.js''), Call ''bad.init'',
           ConsoleError (FailedToLoad ''plugins/bad.js'' (JsError ''init failed''))]\<rparr>, Inr False)
   \<and> loadPlugins_loop (example_env [''bad.js'', ''foo.js'']) ''plugins'' [''bad.js'', ''foo.js''] example_host =
       loadPlugins_loop (example_env [''bad.js'', ''foo.js'']) ''plugins'' [''foo.js'']
         (example_host\<lparr>trace :=
            [StatSync ''plugins/bad.js'', Import ''plugins/bad.js'',
             ConsoleLog (Initializing ''plugins/bad.js''), Call ''bad.init'',
             ConsoleError (FailedToLoad ''plugins/bad.js'' (JsError ''init failed''))]\<rparr>)
   \<and> map fst (loadedPlugins (fst (loadPlugins_loop (example_env [''bad.js'', ''foo.js'']) ''plugins''
         [''bad.js'', ''foo.js''] example_host))) = [''foo'']"
proof -
  let ?env = "example_env [''bad.js'', ''foo.js'']"
  let ?init = "example_fn ''bad.init'' [''/bad''] (Throws (JsError ''init failed'')) 0"
  have b: "descriptor_ok bad_js" "init_of bad_js = JFun ?init []"
    "\<not> map_has (loadedPlugins example_host) (id_of bad_js)"
    "importModule ?env ''plugins/bad.js'' = Inr bad_js"
    "\<not> isDirectory ?env ''plugins/bad.js''" "isCommonJS ?env ''bad.js''"
    "path_join ?env ''plugins'' ''bad.js'' = ''plugins/bad.js''"
    by code_simp+
  have c: "fn_completion ?init = Throws (JsError ''init failed'') \<or> fn_completion ?init = Rejects (JsError ''init failed'')"
    by (simp add: example_fn_def)
  have t: "trace example_host = []" "fn_name ?init = ''bad.init''"
    by (simp_all add: example_host_def example_fn_def)
  have r: "map fst (loadedPlugins (fst (loadPlugins_loop ?env ''plugins'' [''bad.js'', ''foo.js''] example_host))) = [''foo'']"
    by code_simp
  show ?thesis
    using init_throws_not_registered [OF b(1) b(2) b(3) c b(4), of "''bad.js''" "''plugins''" "[''foo.js'']"]
      b(5,6,7) r
    by (simp add: t)
qed

text \<open>
  C9. With the feature flag off, with no plugins directory, or with an empty one,
  \<^verbatim>\<open>loadPlugins\<close> resolves to \<^verbatim>\<open>emptyFn\<close>, whose call does nothing and returns
  \<^verbatim>\<open>undefined\<close>. It imports no module, calls no function and runs no git operation; the
  registry, the app and the checkouts are as before. With the flag off it does not touch
  the file system either: the trace is unchanged. Otherwise it has tested the existence
  of the directory and, when it exists, listed it.
\<close>

theorem disabled_returns_emptyFn:
  assumes "\<not> enableServerPlugins env \<or> \<not> existsSync env pluginsPath \<or> readdirSync env pluginsPath = []"
  shows "\<exists>st'. loadPlugins env pluginsPath st = (st', Inr EmptyFn)
           \<and> loadedPlugins st' = loadedPlugins st \<and> app st' = app st \<and> repos st' = repos st
           \<and> exitHooks st' = []
           \<and> events_since st st' =
               (if \<not> enableServerPlugins env then []
                else if \<not> existsSync env pluginsPath then [ExistsSync pluginsPath]
                else [ExistsSync pluginsPath, ReaddirSync pluginsPath])
           \<and> call_cleanup EmptyFn = ([], Inr ReturnedUndefined)"
  using assms by (auto simp: loadPlugins_def Let_def emit_def events_since_def)

text \<open>
  The three conditions on the example directory: the flag off over a directory full of
  plugins, a path that does not exist, and the empty directory \<^verbatim>\<open>plugins/empty\<close>.
\<close>

theorem disabled_returns_emptyFn_example:
  "(\<exists>st'. loadPlugins ((example_env [''foo.js'', ''bar''])\<lparr>enableServerPlugins := False\<rparr>) ''plugins'' example_host
            = (st', Inr EmptyFn)
       \<and> loadedPlugins st' = [] \<and> trace st' = [])
   \<and> (\<exists>st'. loadPlugins (example_env [''foo.js'']) ''nowhere'' example_host = (st', Inr EmptyFn)
       \<and> loadedPlugins st' = [] \<and> trace st' = [ExistsSync ''nowhere''])
   \<and> (\<exists>st'. loadPlugins (example_env [''foo.js'']) ''plugins/empty'' example_host = (st', Inr EmptyFn)
       \<and> loadedPlugins st' = [] \<and> trace st' = [ExistsSync ''plugins/empty'', ReaddirSync ''plugins/empty''])"
proof -
  let ?off = "(example_env [''foo.js'', ''bar''])\<lparr>enableServerPlugins := False\<rparr>"
  let ?env = "example_env [''foo.js'']"
  have a: "\<not> enableServerPlugins ?off"
    by simp
  have b: "enableServerPlugins ?env" "\<not> existsSync ?env ''nowhere''"
    by code_simp+
  have c: "existsSync ?env ''plugins/empty''" "readdirSync ?env ''plugins/empty'' = []"
    by code_simp+
  have h: "loadedPlugins example_host = []" "trace example_host = []"
    by (simp_all add: example_host_def)
  show ?thesis
    using disabled_returns_emptyFn [of ?off "''plugins''" example_host]
      disabled_returns_emptyFn [of ?env "''nowhere''" example_host]
      disabled_returns_emptyFn [of ?env "''plugins/empty''" example_host]
      a b c
    by (simp add: h events_since_def) blast
qed

section \<open>The registry keeps its entries\<close>

lemma registry_kept_refl: "registry_kept st st"
  by (simp add: registry_kept_def)

lemma registry_kept_trans: "registry_kept a b \<Longrightarrow> registry_kept b c \<Longrightarrow> registry_kept a c"
  by (auto simp: registry_kept_def)

lemma registry_kept_emit [simp]:
  "registry_kept (emit e a) b = registry_kept a b"
  "registry_kept a (emit e b) = registry_kept a b"
  by (simp_all add: registry_kept_def emit_def)

lemma registry_kept_console [simp]:
  "registry_kept (console_log m a) b = registry_kept a b"
  "registry_kept a (console_log m b) = registry_kept a b"
  "registry_kept (console_error m a) b = registry_kept a b"
  "registry_kept a (console_error m b) = registry_kept a b"
  by (simp_all add: console_log_def console_error_def)

lemma initPlugin_register_kept:
  assumes "initPlugin_register plugin pid init st = (st', r)" and "\<not> map_has (loadedPlugins st) pid"
  shows "registry_kept st st'"
proof (cases "fn_completion init")
  case Returns
  then have "loadedPlugins st' = loadedPlugins st @ [(pid, plugin)]"
    using assms initPlugin_register_Returns [of init st pid plugin] by auto
  then show ?thesis
    using assms(2) by (simp add: registry_kept_def map_has_def)
next
  case (Throws e)
  then have "st' = emit (Call (fn_name init)) st"
    using assms(1) by (simp add: initPlugin_register_fails)
  then show ?thesis
    by (simp add: registry_kept_refl)
next
  case (Rejects e)
  then have "st' = emit (Call (fn_name init)) st"
    using assms(1) by (simp add: initPlugin_register_fails)
  then show ?thesis
    by (simp add: registry_kept_refl)
qed

lemma initPlugin_kept:
  assumes "initPlugin plugin st = (st', r)"
  shows "registry_kept st st'"
proof -
  have "st' = st \<or> (\<exists>m. st' = console_error m st)
        \<or> (\<exists>init. \<not> map_has (loadedPlugins st) (id_of plugin)
              \<and> initPlugin_register plugin (id_of plugin) init st = (st', r))"
    using assms
    by (simp add: initPlugin_def Let_def split: if_splits sum.splits option.splits js_value.splits) blast+
  then show ?thesis
    using initPlugin_register_kept by (auto simp: registry_kept_refl)
qed

lemma loadFromFile_kept:
  assumes "loadFromFile env p st = (st', r)"
  shows "registry_kept st st'"
proof (cases "importModule env p")
  case (Inl e)
  then have "st' = console_error (FailedToLoad p e) (emit (Import p) st)"
    using assms by (simp add: loadFromFile_def Let_def)
  then show ?thesis
    by (simp add: registry_kept_refl)
next
  case (Inr plugin)
  obtain st2 r2 where i: "initPlugin plugin (console_log (Initializing p) (emit (Import p) st)) = (st2, r2)"
    by (cases "initPlugin plugin (console_log (Initializing p) (emit (Import p) st))")
  have k: "registry_kept st st2"
    using initPlugin_kept [OF i] by simp
  have "st' = st2 \<or> (\<exists>m. st' = console_error m st2)"
    using assms Inr i by (cases r2) (auto simp: loadFromFile_def Let_def)
  then show ?thesis
    using k by auto
qed

lemma loadFromPackage_kept:
  assumes "loadFromPackage env p st = (st', r)"
  shows "registry_kept st st'"
proof -
  let ?st1 = "emit (ReadFileSync p) st"
  have "(\<exists>m. st' = console_error m ?st1) \<or> st' = ?st1
        \<or> (\<exists>q. loadFromFile env q ?st1 = (st', r))"
  proof (cases "readJSON env p")
    case (Inl e)
    then show ?thesis
      using assms by (auto simp: loadFromPackage_def Let_def)
  next
    case json: (Inr packageJson)
    show ?thesis
    proof (cases "member packageJson ''main''")
      case (Inl e)
      then show ?thesis
        using assms json by (auto simp: loadFromPackage_def Let_def)
    next
      case main: (Inr mainv)
      show ?thesis
      proof (cases "\<exists>m. mainv = JStr m \<and> m \<noteq> []")
        case False
        then show ?thesis
          using assms json main
          by (cases mainv) (auto simp: loadFromPackage_def Let_def split: if_splits)
      next
        case True
        then obtain m where m: "mainv = JStr m" "m \<noteq> []"
          by blast
        obtain st2 ok where
          f: "loadFromFile env (path_join env (path_dirname env p) m) ?st1 = (st2, Inr ok)"
          using loadFromFile_returns by blast
        then have "st' = st2 \<and> r = Inr ok"
          using assms json main m by (simp add: loadFromPackage_def Let_def)
        then show ?thesis
          using f by blast
      qed
    qed
  qed
  then show ?thesis
    using loadFromFile_kept [of env _ ?st1 st' r] by (auto simp: registry_kept_refl)
qed

lemma loadFromDirectory_fileTypes_kept:
  "loadFromDirectory_fileTypes env d ts st = (st', r) \<Longrightarrow> registry_kept st st'"
proof (induction ts arbitrary: st)
  case Nil
  then show ?case by (simp add: registry_kept_refl)
next
  case (Cons t ts)
  let ?p = "path_join env d t"
  let ?st1 = "emit (ExistsSync ?p) st"
  show ?case
  proof (cases "existsSync env ?p")
    case False
    then have "loadFromDirectory_fileTypes env d ts ?st1 = (st', r)"
      using Cons.prems by (simp add: Let_def)
    then have "registry_kept ?st1 st'"
      by (rule Cons.IH)
    then show ?thesis by simp
  next
    case True
    obtain st2 ok where f: "loadFromFile env ?p ?st1 = (st2, Inr ok)"
      using loadFromFile_returns by blast
    have k: "registry_kept st st2"
      using loadFromFile_kept [OF f] by simp
    have "st' = st2 \<or> loadFromDirectory_fileTypes env d ts st2 = (st', r)"
      using Cons.prems True f by (cases ok) (simp_all add: Let_def)
    then have "registry_kept st2 st'"
      using Cons.IH registry_kept_refl by blast
    then show ?thesis
      using k registry_kept_trans by blast
  qed
qed

lemma loadFromDirectory_kept:
  assumes "loadFromDirectory env d st = (st', r)"
  shows "registry_kept st st'"
proof -
  let ?pkg = "path_join env d ''package.json''"
  let ?st2 = "emit (ExistsSync ?pkg) (emit (ReaddirSync d) st)"
  obtain st3 ok where p: "loadFromPackage env ?pkg ?st2 = (st3, Inr ok)"
    using loadFromPackage_returns by blast
  have k: "registry_kept st st3"
    using loadFromPackage_kept [OF p] by simp
  have "st' = emit (ReaddirSync d) st \<or> st' = st3
        \<or> loadFromDirectory_fileTypes env d fileTypes st3 = (st', r)
        \<or> loadFromDirectory_fileTypes env d fileTypes ?st2 = (st', r)"
    using assms p by (auto simp: loadFromDirectory_def Let_def split: if_splits)
  then consider "st' = emit (ReaddirSync d) st" | "st' = st3" | "registry_kept st3 st'"
    | "registry_kept ?st2 st'"
    using loadFromDirectory_fileTypes_kept by blast
  then show ?thesis
  proof cases
    case 1
    then show ?thesis by (simp add: registry_kept_refl)
  next
    case 2
    then show ?thesis using k by simp
  next
    case 3
    then show ?thesis using k registry_kept_trans by blast
  next
    case 4
    then show ?thesis by simp
  qed
qed

lemma loadPlugins_loop_kept:
  "loadPlugins_loop env root files st = (st', r) \<Longrightarrow> registry_kept st st'"
proof (induction files arbitrary: st)
  case Nil
  then show ?case by (simp add: registry_kept_refl)
next
  case (Cons f fs)
  let ?p = "path_join env root f"
  let ?st1 = "emit (StatSync ?p) st"
  obtain sd where d: "loadFromDirectory env ?p ?st1 = (sd, Inr ())"
    using loadFromDirectory_returns by blast
  obtain sf ok where l: "loadFromFile env ?p ?st1 = (sf, Inr ok)"
    using loadFromFile_returns by blast
  have kd: "registry_kept st sd"
    using loadFromDirectory_kept [OF d] by simp
  have kf: "registry_kept st sf"
    using loadFromFile_kept [OF l] by simp
  have "loadPlugins_loop env root fs sd = (st', r) \<or> loadPlugins_loop env root fs sf = (st', r)
        \<or> loadPlugins_loop env root fs ?st1 = (st', r)"
    using Cons.prems d l by (auto simp: Let_def split: if_splits)
  then consider "registry_kept sd st'" | "registry_kept sf st'" | "registry_kept ?st1 st'"
    using Cons.IH by blast
  then show ?case
  proof cases
    case 1
    then show ?thesis using kd registry_kept_trans by blast
  next
    case 2
    then show ?thesis using kf registry_kept_trans by blast
  next
    case 3
    then show ?thesis by simp
  qed
qed

lemma one_entry_of_distinct:
  "distinct (map fst xs) \<Longrightarrow> (k, v) \<in> set xs \<Longrightarrow> length (filter (\<lambda>entry. fst entry = k) xs) = 1"
proof (induction xs)
  case Nil
  then show ?case by simp
next
  case (Cons x xs)
  show ?case
  proof (cases "fst x = k")
    case True
    then have "k \<notin> fst ` set xs"
      using Cons.prems(1) by simp
    then have "\<forall>entry \<in> set xs. fst entry \<noteq> k"
      by (metis imageI)
    then have "filter (\<lambda>entry. fst entry = k) xs = []"
      by (simp add: filter_empty_conv)
    then show ?thesis
      using True by simp
  next
    case False
    then show ?thesis
      using Cons by auto
  qed
qed

lemma registry_kept_map_of:
  assumes "registry_kept st st'" and "map_of (loadedPlugins st) pid = Some first"
    and "distinct (map fst (loadedPlugins st))"
  shows "map_of (loadedPlugins st') pid = Some first
       \<and> length (filter (\<lambda>entry. fst entry = pid) (loadedPlugins st')) = 1"
proof -
  obtain added where a: "loadedPlugins st' = loadedPlugins st @ added"
    using assms(1) by (auto simp: registry_kept_def prefix_def)
  have d: "distinct (map fst (loadedPlugins st'))"
    using assms(1,3) by (simp add: registry_kept_def)
  have m: "map_of (loadedPlugins st') pid = Some first"
    using a assms(2) by (simp add: map_add_Some_iff)
  then have "(pid, first) \<in> set (loadedPlugins st')"
    by (rule map_of_SomeD)
  then have "length (filter (\<lambda>entry. fst entry = pid) (loadedPlugins st')) = 1"
    by (rule one_entry_of_distinct [OF d])
  then show ?thesis
    using m by simp
qed


text \<open>
  C4. Once an id is registered, a module that declares the same id and passes validation is
  rejected: \<^verbatim>\<open>initPlugin\<close> logs that the id is in use and returns \<^verbatim>\<open>false\<close> without calling
  its \<open>init\<close>, and the host changes in its trace only. Whatever files the loop still
  loads after that, the registry keeps the module that was registered first under the id,
  in exactly one entry.
\<close>

theorem duplicate_id_rejected:
  assumes "descriptor_ok plugin" and "init_of plugin = JFun init ps"
    and "map_of (loadedPlugins st) (id_of plugin) = Some first"
    and "distinct (map fst (loadedPlugins st))"
  shows "initPlugin plugin st = (console_error (IDInUse (id_of plugin)) st, Inr False)
       \<and> events_since st (fst (initPlugin plugin st)) = [ConsoleError (IDInUse (id_of plugin))]
       \<and> loadedPlugins (fst (initPlugin plugin st)) = loadedPlugins st
       \<and> map_of (loadedPlugins (fst (loadPlugins_loop env pluginsPath files st))) (id_of plugin)
           = Some first
       \<and> length (filter (\<lambda>entry. fst entry = id_of plugin)
                   (loadedPlugins (fst (loadPlugins_loop env pluginsPath files st)))) = 1"
proof -
  have "id_of plugin \<in> fst ` set (loadedPlugins st)"
    using assms(3) by (metis map_of_eq_None_iff option.distinct(1))
  then have "map_has (loadedPlugins st) (id_of plugin)"
    by (simp add: map_has_def)
  then have i: "initPlugin plugin st = (console_error (IDInUse (id_of plugin)) st, Inr False)"
    using assms(1,2) by (simp add: initPlugin_validated)
  have "registry_kept st (fst (loadPlugins_loop env pluginsPath files st))"
    by (rule loadPlugins_loop_kept [of env pluginsPath files st _ "snd (loadPlugins_loop env pluginsPath files st)"])
       simp
  then show ?thesis
    using i registry_kept_map_of [OF _ assms(3) assms(4)]
    by (simp add: events_since_def console_error_def emit_def)
qed

text \<open>
  After \<^verbatim>\<open>foo.js\<close> has registered the id \<^verbatim>\<open>foo\<close>, \<^verbatim>\<open>dup.js\<close>, which declares it too, is
  rejected; after the rest of the run the entry of \<^verbatim>\<open>foo\<close> is still the module of
  \<^verbatim>\<open>foo.js\<close>, and the whole run leaves the two entries \<^verbatim>\<open>foo\<close> and \<^verbatim>\<open>bar\<close>.
\<close>

theorem duplicate_id_rejected_example:
  "initPlugin dup_js (fst (loadFromFile (example_env []) ''plugins/foo.js'' example_host))
     = (console_error (IDInUse ''foo'') (fst (loadFromFile (example_env []) ''plugins/foo.js'' example_host)),
        Inr False)
   \<and> map_of (loadedPlugins (fst (loadPlugins_loop (example_env []) ''plugins'' [''dup.js'', ''bar'']
               (fst (loadFromFile (example_env []) ''plugins/foo.js'' example_host))))) ''foo''
       = Some foo_js
   \<and> length (filter (\<lambda>entry. fst entry = ''foo'')
        (loadedPlugins (fst (loadPlugins_loop (example_env []) ''plugins'' [''dup.js'', ''bar'']
           (fst (loadFromFile (example_env []) ''plugins/foo.js'' example_host)))))) = 1
   \<and> map fst (loadedPlugins (fst (loadPlugins (example_env [''foo.js'', ''dup.js'', ''bar'']) ''plugins''
        example_host))) = [''foo'', ''bar'']"
proof -
  let ?st = "fst (loadFromFile (example_env []) ''plugins/foo.js'' example_host)"
  have h: "descriptor_ok dup_js" "init_of dup_js = JFun (example_fn ''foo.init'' [''/other''] Returns 0) []"
    "map_of (loadedPlugins ?st) (id_of dup_js) = Some foo_js"
    "distinct (map fst (loadedPlugins ?st))"
    by code_simp+
  have i: "id_of dup_js = ''foo''"
    by code_simp
  have r: "map fst (loadedPlugins (fst (loadPlugins (example_env [''foo.js'', ''dup.js'', ''bar'']) ''plugins''
        example_host))) = [''foo'', ''bar'']"
    by code_simp
  show ?thesis
    using duplicate_id_rejected [OF h, of "example_env []" "''plugins''" "[''dup.js'', ''bar'']"] r
    by (simp add: i)
qed

section \<open>The update phase\<close>




text \<open>
  The events of one directory of the update loop: git operations on its checkout, and
  console output.
\<close>

lemma updatePlugins_repo_events:
  assumes "updatePlugins_repo d p r s = (s', res)"
  shows "\<exists>evs. trace (fst s') = trace (fst s) @ evs
           \<and> (\<forall>ev \<in> set evs. git_path ev = Some p \<or> git_path ev = None)"
  using assms
  by (auto simp: updatePlugins_repo_def Let_def emit_def console_log_def
           split: sum.splits if_splits)

lemma updatePlugins_try_events:
  assumes "updatePlugins_try d p s = (s', res)"
  shows "\<exists>evs. trace (fst s') = trace (fst s) @ evs
           \<and> (\<forall>ev \<in> set evs. git_path ev = Some p \<or> git_path ev = None)"
proof (cases "map_of (repos (fst s)) p")
  case None
  then have "trace (fst s') = trace (fst s) @ [CheckIsRepo p]"
    using assms by (auto simp: updatePlugins_try_def Let_def emit_def)
  then show ?thesis by simp
next
  case (Some r)
  let ?s1 = "(emit (CheckIsRepo p) (fst s), snd s)"
  have "updatePlugins_repo d p r ?s1 = (s', res)"
    using assms Some by (simp add: updatePlugins_try_def Let_def emit_def)
  then obtain evs where "trace (fst s') = trace (fst ?s1) @ evs"
    and "\<forall>ev \<in> set evs. git_path ev = Some p \<or> git_path ev = None"
    using updatePlugins_repo_events by blast
  then have "trace (fst s') = trace (fst s) @ (CheckIsRepo p # evs)
             \<and> (\<forall>ev \<in> set (CheckIsRepo p # evs). git_path ev = Some p \<or> git_path ev = None)"
    by (simp add: emit_def)
  then show ?thesis by blast
qed

lemma updatePlugins_loop_events:
  "\<exists>evs. trace (fst (updatePlugins_loop env root ds s)) = trace (fst s) @ evs
         \<and> (\<forall>ev \<in> set evs. \<forall>q. git_path ev = Some q \<longrightarrow> q \<in> path_join env root ` set ds)"
proof (induction ds arbitrary: s)
  case Nil
  show ?case by simp
next
  case (Cons d ds)
  let ?p = "path_join env root d"
  obtain st1 n res where t: "updatePlugins_try d ?p s = ((st1, n), res)"
    by (metis surj_pair)
  obtain evs where e: "trace st1 = trace (fst s) @ evs"
    "\<forall>ev \<in> set evs. git_path ev = Some ?p \<or> git_path ev = None"
    using updatePlugins_try_events [OF t] by auto
  obtain s1 logged where s1: "updatePlugins_loop env root (d # ds) s = updatePlugins_loop env root ds s1"
    "trace (fst s1) = trace st1 @ logged" "\<forall>ev \<in> set logged. git_path ev = None"
  proof (cases res)
    case (Inl err)
    then show ?thesis
      using t that [of "(console_error (FailedToUpdate d err) st1, n)" "[ConsoleError (FailedToUpdate d err)]"]
      by (simp add: console_error_def emit_def)
  next
    case (Inr u)
    then show ?thesis
      using t that [of "(st1, n)" "[]"] by simp
  qed
  obtain evs' where e': "trace (fst (updatePlugins_loop env root ds s1)) = trace (fst s1) @ evs'"
    "\<forall>ev \<in> set evs'. \<forall>q. git_path ev = Some q \<longrightarrow> q \<in> path_join env root ` set ds"
    using Cons.IH by blast
  have "trace (fst (updatePlugins_loop env root (d # ds) s)) = trace (fst s) @ (evs @ logged @ evs')"
    using s1 e e' by simp
  moreover have "\<forall>ev \<in> set (evs @ logged @ evs'). \<forall>q. git_path ev = Some q \<longrightarrow>
                   q \<in> path_join env root ` set (d # ds)"
    using e(2) s1(3) e'(2) by auto
  ultimately show ?case by blast
qed

lemma updatePlugins_events:
  "\<exists>evs. trace (fst (updatePlugins env root st)) = trace st @ evs
         \<and> (\<forall>ev \<in> set evs. \<forall>q. git_path ev = Some q \<longrightarrow>
               q \<in> path_join env root ` set (updatePlugins_directories env root))"
proof -
  let ?ds = "updatePlugins_directories env root"
  let ?stats = "ReaddirSync root #
     map (\<lambda>file. StatSync (path_join env root file))
       (filter (\<lambda>file. \<not> startsWithDot file) (readdirSync env root))"
  let ?st1 = "st\<lparr>trace := trace st @ ?stats\<rparr>"
  let ?st2 = "emit (CommandExists ''git'') (console_log AutoUpdating ?st1)"
  have n: "\<forall>ev \<in> set ?stats. git_path ev = None"
    by auto
  obtain evs where e: "trace (fst (updatePlugins_loop env root ?ds (?st2, 0))) = trace ?st2 @ evs"
    "\<forall>ev \<in> set evs. \<forall>q. git_path ev = Some q \<longrightarrow> q \<in> path_join env root ` set ?ds"
    using updatePlugins_loop_events [of env root ?ds "(?st2, 0)"] by auto
  have t2: "trace ?st2 = trace st @ ?stats @ [ConsoleLog AutoUpdating, CommandExists ''git'']"
    by (simp add: emit_def console_log_def)
  let ?L = "fst (updatePlugins_loop env root ?ds (?st2, 0))"
  have "fst (updatePlugins env root st) = st \<or> fst (updatePlugins env root st) = ?st1
        \<or> fst (updatePlugins env root st) = console_error GitNotInstalled ?st2
        \<or> fst (updatePlugins env root st) = console_log AllUpToDate ?L
        \<or> fst (updatePlugins env root st) = ?L"
    by (cases "updatePlugins_loop env root ?ds (?st2, 0)") (simp add: updatePlugins_def Let_def)
  then consider "fst (updatePlugins env root st) = st" | "fst (updatePlugins env root st) = ?st1"
    | "fst (updatePlugins env root st) = console_error GitNotInstalled ?st2"
    | "fst (updatePlugins env root st) = console_log AllUpToDate ?L"
    | "fst (updatePlugins env root st) = ?L"
    by blast
  then show ?thesis
  proof cases
    case 1
    then show ?thesis by simp
  next
    case 2
    then have "trace (fst (updatePlugins env root st)) = trace st @ ?stats"
      by simp
    then show ?thesis using n by (metis option.distinct(1))
  next
    case 3
    then have "trace (fst (updatePlugins env root st)) =
                 trace st @ (?stats @ [ConsoleLog AutoUpdating, CommandExists ''git'', ConsoleError GitNotInstalled])"
      using t2 by (simp add: console_error_def emit_def)
    moreover have "\<forall>ev \<in> set (?stats @ [ConsoleLog AutoUpdating, CommandExists ''git'', ConsoleError GitNotInstalled]).
                     git_path ev = None"
      by auto
    ultimately show ?thesis by (metis option.distinct(1))
  next
    case 4
    then have "trace (fst (updatePlugins env root st)) =
                 trace st @ (?stats @ [ConsoleLog AutoUpdating, CommandExists ''git''] @ evs @ [ConsoleLog AllUpToDate])"
      using t2 e(1) by (simp add: console_log_def emit_def)
    moreover have "\<forall>ev \<in> set (?stats @ [ConsoleLog AutoUpdating, CommandExists ''git''] @ evs @ [ConsoleLog AllUpToDate]).
                     \<forall>q. git_path ev = Some q \<longrightarrow> q \<in> path_join env root ` set ?ds"
      using e(2) by auto
    ultimately show ?thesis by blast
  next
    case 5
    then have "trace (fst (updatePlugins env root st)) =
                 trace st @ (?stats @ [ConsoleLog AutoUpdating, CommandExists ''git''] @ evs)"
      using t2 e(1) by simp
    moreover have "\<forall>ev \<in> set (?stats @ [ConsoleLog AutoUpdating, CommandExists ''git''] @ evs).
                     \<forall>q. git_path ev = Some q \<longrightarrow> q \<in> path_join env root ` set ?ds"
      using e(2) by auto
    ultimately show ?thesis by blast
  qed
qed


lemma events_since_append: "trace st' = trace st @ evs \<Longrightarrow> events_since st st' = evs"
  by (simp add: events_since_def)




lemma loadPlugins_loop_directory:
  assumes "isDirectory env (path_join env pluginsPath d)"
  shows "loadPlugins_loop env pluginsPath (d # files) st =
           loadPlugins_loop env pluginsPath files
             (fst (loadFromDirectory env (path_join env pluginsPath d)
                     (emit (StatSync (path_join env pluginsPath d)) st)))"
proof -
  obtain sd where "loadFromDirectory env (path_join env pluginsPath d)
                     (emit (StatSync (path_join env pluginsPath d)) st) = (sd, Inr ())"
    using loadFromDirectory_returns by blast
  then show ?thesis
    using assms by (simp add: Let_def)
qed

text \<open>
  C10. A directory of the plugins directory whose name starts with a dot, no other entry
  having its path: the update phase runs no git operation on it, so it is neither fetched
  nor pulled; the loading loop hands it to \<^verbatim>\<open>loadFromDirectory\<close> as it does every directory
  (lemma \<open>loadPlugins_loop_directory\<close> has no condition on the name).
\<close>

theorem hidden_directory_loaded_not_updated:
  assumes "startsWithDot d" and "isDirectory env (path_join env pluginsPath d)"
    and "\<forall>d' \<in> set (readdirSync env pluginsPath).
           path_join env pluginsPath d' = path_join env pluginsPath d \<longrightarrow> d' = d"
  shows "filter (\<lambda>ev. git_path ev = Some (path_join env pluginsPath d))
            (events_since st (fst (updatePlugins env pluginsPath st))) = []
       \<and> loadPlugins_loop env pluginsPath (d # files) st' =
           loadPlugins_loop env pluginsPath files
             (fst (loadFromDirectory env (path_join env pluginsPath d)
                     (emit (StatSync (path_join env pluginsPath d)) st')))"
proof -
  obtain evs where e: "trace (fst (updatePlugins env pluginsPath st)) = trace st @ evs"
    "\<forall>ev \<in> set evs. \<forall>q. git_path ev = Some q \<longrightarrow>
        q \<in> path_join env pluginsPath ` set (updatePlugins_directories env pluginsPath)"
    using updatePlugins_events by blast
  have "path_join env pluginsPath d \<notin> path_join env pluginsPath ` set (updatePlugins_directories env pluginsPath)"
  proof
    assume "path_join env pluginsPath d \<in> path_join env pluginsPath ` set (updatePlugins_directories env pluginsPath)"
    then obtain d' where d': "d' \<in> set (updatePlugins_directories env pluginsPath)"
      "path_join env pluginsPath d' = path_join env pluginsPath d"
      by auto
    then have "d' \<in> set (readdirSync env pluginsPath)" "\<not> startsWithDot d'"
      by (simp_all add: updatePlugins_directories_def)
    then show False
      using d'(2) assms(1,3) by blast
  qed
  then have "\<forall>ev \<in> set evs. git_path ev \<noteq> Some (path_join env pluginsPath d)"
    using e(2) by blast
  then have "filter (\<lambda>ev. git_path ev = Some (path_join env pluginsPath d)) evs = []"
    by (simp add: filter_empty_conv)
  then show ?thesis
    using events_since_append [OF e(1)] loadPlugins_loop_directory [OF assms(2)] by simp
qed

text \<open>
  \<^verbatim>\<open>plugins/.hidden\<close> is a checkout one commit behind its tracking branch, with an
  \<^verbatim>\<open>index.js\<close>: the run leaves it where it was and registers its plugin, while
  \<^verbatim>\<open>plugins/ext\<close>, next to it, is pulled.
\<close>

theorem hidden_directory_loaded_not_updated_example:
  "filter (\<lambda>ev. git_path ev = Some ''plugins/.hidden'')
      (events_since example_host (fst (updatePlugins (example_env [''.hidden'', ''ext'']) ''plugins'' example_host))) = []
   \<and> loadPlugins_loop (example_env [''.hidden'', ''ext'']) ''plugins'' [''.hidden'', ''ext''] example_host =
       loadPlugins_loop (example_env [''.hidden'', ''ext'']) ''plugins'' [''ext'']
         (fst (loadFromDirectory (example_env [''.hidden'', ''ext'']) ''plugins/.hidden''
                 (emit (StatSync ''plugins/.hidden'') example_host)))
   \<and> map fst (loadedPlugins (fst (loadPlugins (example_env [''.hidden'', ''ext'']) ''plugins'' example_host)))
       = [''hidden'', ''ext'']
   \<and> map_of (repos (fst (loadPlugins (example_env [''.hidden'', ''ext'']) ''plugins'' example_host)))
         ''plugins/.hidden'' = Some (example_repo 1 (Inr ''d4e5f6''))
   \<and> map_of (repos (fst (loadPlugins (example_env [''.hidden'', ''ext'']) ''plugins'' example_host)))
         ''plugins/ext'' = Some ((example_repo 3 (Inr ''f7a8b9''))\<lparr>head := Inr ''f7a8b9''\<rparr>)"
proof -
  let ?env = "example_env [''.hidden'', ''ext'']"
  have h: "startsWithDot ''.hidden''" "isDirectory ?env (path_join ?env ''plugins'' ''.hidden'')"
    "\<forall>d' \<in> set (readdirSync ?env ''plugins'').
       path_join ?env ''plugins'' d' = path_join ?env ''plugins'' ''.hidden'' \<longrightarrow> d' = ''.hidden''"
    by code_simp+
  have j: "path_join ?env ''plugins'' ''.hidden'' = ''plugins/.hidden''"
    by code_simp
  have r: "map fst (loadedPlugins (fst (loadPlugins ?env ''plugins'' example_host))) = [''hidden'', ''ext'']"
    "map_of (repos (fst (loadPlugins ?env ''plugins'' example_host))) ''plugins/.hidden''
       = Some (example_repo 1 (Inr ''d4e5f6''))"
    "map_of (repos (fst (loadPlugins ?env ''plugins'' example_host))) ''plugins/ext''
       = Some ((example_repo 3 (Inr ''f7a8b9''))\<lparr>head := Inr ''f7a8b9''\<rparr>)"
    by code_simp+
  show ?thesis
    using hidden_directory_loaded_not_updated [OF h, of example_host "[''ext'']" example_host] r
    by (simp add: j)
qed

section \<open>Resolving a directory\<close>





section \<open>Calling the cleanup function\<close>

text \<open>The promise a hook returns when its call does not throw.\<close>

lemma map_exitFn_no_throw:
  assumes "\<forall>exitFn \<in> set hooks. \<forall>e. fn_completion exitFn \<noteq> Throws e"
  shows "map_exitFn hooks =
           (map (\<lambda>exitFn. Call (fn_name exitFn)) hooks,
            Inr (map (\<lambda>exitFn. Promise (fn_settles exitFn)
                        (case fn_completion exitFn of Rejects r \<Rightarrow> Some r | _ \<Rightarrow> None)) hooks))"
  using assms
proof (induction hooks)
  case Nil
  show ?case by simp
next
  case (Cons h hs)
  then have "map_exitFn hs =
           (map (\<lambda>exitFn. Call (fn_name exitFn)) hs,
            Inr (map (\<lambda>exitFn. Promise (fn_settles exitFn)
                        (case fn_completion exitFn of Rejects r \<Rightarrow> Some r | _ \<Rightarrow> None)) hs))"
    by simp
  moreover have "\<forall>e. fn_completion h \<noteq> Throws e"
    using Cons.prems by simp
  ultimately show ?case
    by (cases "fn_completion h") simp_all
qed

lemma first_rejection_None:
  "first_rejection ps = None \<longleftrightarrow> (\<forall>p \<in> set ps. \<exists>t. p = Promise t None)"
proof (induction ps rule: first_rejection.induct)
  case 1
  show ?case by simp
next
  case (2 t ps)
  then show ?case by simp
next
  case (3 t e ps)
  show ?case by (simp split: option.splits)
qed

lemma first_rejection_Some:
  "first_rejection ps = Some (t, e) \<Longrightarrow>
     Promise t (Some e) \<in> set ps \<and> (\<forall>t' e'. Promise t' (Some e') \<in> set ps \<longrightarrow> t \<le> t')"
proof (induction ps arbitrary: t e rule: first_rejection.induct)
  case 1
  then show ?case by simp
next
  case (2 u ps)
  then show ?case by simp
next
  case (3 u r ps)
  show ?case
  proof (cases "first_rejection ps")
    case None
    then have "\<forall>p \<in> set ps. \<exists>t. p = Promise t None"
      by (simp add: first_rejection_None)
    then have "\<forall>t' e'. Promise t' (Some e') \<notin> set ps"
      by auto
    then show ?thesis
      using 3 None by auto
  next
    case (Some a)
    obtain t' e' where a: "a = (t', e')"
      by (cases a)
    then have ih: "Promise t' (Some e') \<in> set ps" "\<forall>t'' e''. Promise t'' (Some e'') \<in> set ps \<longrightarrow> t' \<le> t''"
      using 3 Some by auto
    show ?thesis
    proof (cases "t' < u")
      case True
      then have "t = t'" "e = e'"
        using 3(2) Some a by auto
      then show ?thesis
        using ih True by auto
    next
      case False
      then have "t = u" "e = r"
        using 3(2) Some a by auto
      then show ?thesis
        using ih False by fastforce
    qed
  qed
qed

text \<open>
  C1, as the code has it. When no hook throws before returning, the cleanup function calls
  every hook, in the order in which they were collected, and returns the promise of
  \<^verbatim>\<open>Promise.all\<close> over what they return. That promise fulfils exactly when no hook's
  promise rejects. When it rejects, its reason is the reason of one hook, the first one to
  reject: it does not name the hook and holds nothing of any other hook that rejects.
\<close>

theorem cleanup_calls_every_hook:
  assumes "\<forall>exitFn \<in> set hooks. \<forall>e. fn_completion exitFn \<noteq> Throws e"
  shows "\<exists>t outcome.
           call_cleanup (CallExitHooks hooks) =
             (map (\<lambda>exitFn. Call (fn_name exitFn)) hooks, Inr (ReturnedPromise (Promise t outcome)))
           \<and> (outcome = None \<longleftrightarrow> (\<forall>exitFn \<in> set hooks. fn_completion exitFn = Returns))
           \<and> (\<forall>e. outcome = Some e \<longrightarrow>
                 (\<exists>exitFn \<in> set hooks. fn_completion exitFn = Rejects e \<and> fn_settles exitFn = t)
                 \<and> (\<forall>other \<in> set hooks. \<forall>r. fn_completion other = Rejects r \<longrightarrow> t \<le> fn_settles other))"
proof -
  let ?promise = "\<lambda>exitFn. Promise (fn_settles exitFn)
                    (case fn_completion exitFn of Rejects r \<Rightarrow> Some r | _ \<Rightarrow> None)"
  let ?ps = "map ?promise hooks"
  have c: "call_cleanup (CallExitHooks hooks) =
             (map (\<lambda>exitFn. Call (fn_name exitFn)) hooks, Inr (ReturnedPromise (promise_all ?ps)))"
    using map_exitFn_no_throw [OF assms] by simp
  have ret: "\<And>h. h \<in> set hooks \<Longrightarrow> (\<exists>t. ?promise h = Promise t None) \<longleftrightarrow> fn_completion h = Returns"
    using assms by (auto split: completion.splits)
  show ?thesis
  proof (cases "first_rejection ?ps")
    case None
    then have "\<forall>h \<in> set hooks. fn_completion h = Returns"
      using ret by (simp add: first_rejection_None)
    then show ?thesis
      using c None by (simp add: promise_all_def)
  next
    case (Some a)
    obtain t e where a: "a = (t, e)"
      by (cases a)
    have f: "Promise t (Some e) \<in> set ?ps" "\<forall>t' e'. Promise t' (Some e') \<in> set ?ps \<longrightarrow> t \<le> t'"
      using first_rejection_Some [of ?ps t e] Some a by auto
    obtain h where h: "h \<in> set hooks" "?promise h = Promise t (Some e)"
      using f(1) by auto
    then have hr: "fn_completion h = Rejects e" "fn_settles h = t"
      by (auto split: completion.splits)
    have later: "\<forall>other \<in> set hooks. \<forall>r. fn_completion other = Rejects r \<longrightarrow> t \<le> fn_settles other"
    proof (intro ballI allI impI)
      fix other r
      assume "other \<in> set hooks" "fn_completion other = Rejects r"
      then have "Promise (fn_settles other) (Some r) \<in> set ?ps"
        by force
      then show "t \<le> fn_settles other"
        using f(2) by blast
    qed
    have "fn_completion h \<noteq> Returns"
      using hr(1) by simp
    then have "\<not> (\<forall>exitFn \<in> set hooks. fn_completion exitFn = Returns)"
      using h(1) by blast
    then show ?thesis
      using c Some a h(1) hr later by (auto simp: promise_all_def)
  qed
qed

text \<open>
  The claim fails on the example. The three plugins \<^verbatim>\<open>t1\<close>, \<^verbatim>\<open>t2\<close> and \<^verbatim>\<open>t3\<close> are loaded and
  their exit hooks collected; the hook of \<^verbatim>\<open>t1\<close> throws: the cleanup function throws its
  error and the hooks of \<^verbatim>\<open>t2\<close> and \<^verbatim>\<open>t3\<close> are not called. With the hooks of \<^verbatim>\<open>r1\<close> and
  \<^verbatim>\<open>r2\<close>, whose promises both reject, all three hooks are called and the promise rejects
  with the reason of \<^verbatim>\<open>r2\<close> alone, the earlier of the two to settle.
\<close>

theorem cleanup_stops_at_throwing_hook:
  "map fst (loadedPlugins (fst (loadPlugins (example_env [''t1.js'', ''t2.js'', ''t3.js'']) ''plugins'' example_host)))
     = [''t1'', ''t2'', ''t3'']
   \<and> snd (loadPlugins (example_env [''t1.js'', ''t2.js'', ''t3.js'']) ''plugins'' example_host)
       = Inr (CallExitHooks [t1_exit, t2_exit, t3_exit])
   \<and> call_cleanup (CallExitHooks [t1_exit, t2_exit, t3_exit])
       = ([Call ''t1.exit''], Inl (JsError ''t1 failed''))
   \<and> snd (loadPlugins (example_env [''r1.js'', ''r2.js'', ''t3.js'']) ''plugins'' example_host)
       = Inr (CallExitHooks [r1_exit, r2_exit, t3_exit])
   \<and> call_cleanup (CallExitHooks [r1_exit, r2_exit, t3_exit])
       = ([Call ''r1.exit'', Call ''r2.exit'', Call ''t3.exit''],
          Inr (ReturnedPromise (Promise 3 (Some (JsError ''r2 failed'')))))"
  by code_simp

text \<open>
  With the hooks of \<^verbatim>\<open>r1\<close>, \<^verbatim>\<open>r2\<close> and \<^verbatim>\<open>t3\<close>, none of which throws: the three calls, and
  the rejection with the reason of \<^verbatim>\<open>r2\<close>, which settles third where \<^verbatim>\<open>r1\<close> settles fifth.
  With the hooks of \<^verbatim>\<open>t2\<close> and \<^verbatim>\<open>t3\<close> the promise fulfils.
\<close>

theorem cleanup_calls_every_hook_example:
  "call_cleanup (CallExitHooks [r1_exit, r2_exit, t3_exit])
     = ([Call ''r1.exit'', Call ''r2.exit'', Call ''t3.exit''],
        Inr (ReturnedPromise (Promise 3 (Some (JsError ''r2 failed'')))))
   \<and> (\<exists>t. call_cleanup (CallExitHooks [t2_exit, t3_exit])
          = ([Call ''t2.exit'', Call ''t3.exit''], Inr (ReturnedPromise (Promise t None))))"
proof -
  have n: "\<forall>exitFn \<in> set [r1_exit, r2_exit, t3_exit]. \<forall>e. fn_completion exitFn \<noteq> Throws e"
    "\<forall>exitFn \<in> set [t2_exit, t3_exit]. \<forall>e. fn_completion exitFn \<noteq> Throws e"
    by (simp_all add: r1_exit_def r2_exit_def t2_exit_def t3_exit_def example_fn_def)
  have v: "call_cleanup (CallExitHooks [r1_exit, r2_exit, t3_exit])
     = ([Call ''r1.exit'', Call ''r2.exit'', Call ''t3.exit''],
        Inr (ReturnedPromise (Promise 3 (Some (JsError ''r2 failed'')))))"
    by code_simp
  have r: "fn_completion t2_exit = Returns" "fn_completion t3_exit = Returns"
    "fn_name t2_exit = ''t2.exit''" "fn_name t3_exit = ''t3.exit''"
    by (simp_all add: t2_exit_def t3_exit_def example_fn_def)
  obtain t outcome where
    "call_cleanup (CallExitHooks [t2_exit, t3_exit]) =
       (map (\<lambda>exitFn. Call (fn_name exitFn)) [t2_exit, t3_exit], Inr (ReturnedPromise (Promise t outcome)))"
    "outcome = None \<longleftrightarrow> (\<forall>exitFn \<in> set [t2_exit, t3_exit]. fn_completion exitFn = Returns)"
    using cleanup_calls_every_hook [OF n(2)] by blast
  then have "call_cleanup (CallExitHooks [t2_exit, t3_exit])
          = ([Call ''t2.exit'', Call ''t3.exit''], Inr (ReturnedPromise (Promise t None)))"
    using r by simp
  then show ?thesis
    using v cleanup_calls_every_hook [OF n(1)] by blast
qed

end
